theory Spec2Isabelle
  imports Main "HOL-Library.AList"
begin

section \<open>Paper-Patrol: the classification-and-routing pipeline of lambda\_function.py\<close>

text \<open>
  The program is one Python module. Once a day it asks arXiv for the latest papers of a
  category, keeps those published yesterday, asks a chat model to classify each one,
  and posts a Slack message for the papers that pass the routing rules.

  The embedding follows the module function by function. Python values that come out of
  \<^verbatim>\<open>json.loads\<close> or go into \<^verbatim>\<open>json.dumps\<close> are values of the datatype
  \<open>pyval\<close>; exceptions are values of the datatype \<open>exn\<close>, and a function that may
  raise returns \<open>exn + 'a\<close>; the calls made to the chat model and to the Slack web hooks
  are recorded, in order, in a trace that every effectful function takes and returns.
  The libraries (arxiv, openai, requests, json and the clock) are not part of the
  module: they are the fields of the record \<open>env\<close>, and every theorem holds for all
  of them unless it says otherwise.
\<close>

subsection \<open>Python values and exceptions\<close>

text \<open>
  A float is kept as the text \<^verbatim>\<open>repr\<close> prints for it: the module never computes
  with one, it only compares values with string literals and formats them.
  A dict is an association list in insertion order.
\<close>

datatype pyval =
    PNone
  | PBool bool
  | PInt int
  | PFloat string
  | PStr string
  | PList "pyval list"
  | PDict "(string \<times> pyval) list"

text \<open>
  The exceptions the module can meet. \<open>JSONDecodeError msg doc\<close> carries the message
  and the document that failed to parse, as \<^verbatim>\<open>json.JSONDecodeError\<close> does in its
  attributes \<^verbatim>\<open>msg\<close> and \<^verbatim>\<open>doc\<close>. \<open>LibraryError cls msg\<close> is an exception
  raised inside one of the libraries, with its class name and its message.
\<close>

datatype exn =
    JSONDecodeError string string
  | KeyError string
  | AttributeError string
  | UnboundLocalError string
  | OverflowError string
  | LibraryError string string

definition sq :: "string \<Rightarrow> string" where
  "sq s = CHR 0x27 # s @ [CHR 0x27]"

fun exn_class :: "exn \<Rightarrow> string" where
  "exn_class (JSONDecodeError msg doc) = ''JSONDecodeError''"
| "exn_class (KeyError k) = ''KeyError''"
| "exn_class (AttributeError msg) = ''AttributeError''"
| "exn_class (UnboundLocalError v) = ''UnboundLocalError''"
| "exn_class (OverflowError msg) = ''OverflowError''"
| "exn_class (LibraryError cls msg) = cls"

subsection \<open>The data of the libraries\<close>

text \<open>
  A date is its proleptic Gregorian ordinal (\<^verbatim>\<open>date.toordinal()\<close>): two dates are
  equal when their ordinals are, \<^verbatim>\<open>date.min\<close> is day 1, and subtracting
  \<^verbatim>\<open>timedelta(days=1)\<close> subtracts one, raising OverflowError below \<^verbatim>\<open>date.min\<close>.
  A datetime is a date and the microsecond of that day; \<^verbatim>\<open>.date()\<close> drops the time.
\<close>

type_synonym date = int

definition date_min :: date where
  "date_min = 1"

record datetime =
  day_ordinal :: date
  microsecond_of_day :: nat

definition date_of :: "datetime \<Rightarrow> date" where
  "date_of dt = day_ordinal dt"

record author =
  name :: string

record paper =
  entry_id :: string
  title :: string
  summary :: string
  authors :: "author list"
  published :: datetime

datatype sort_criterion = Relevance | LastUpdatedDate | SubmittedDate

record arxiv_search =
  query :: string
  max_results :: int
  sort_by :: sort_criterion

record chat_request =
  model :: string
  max_tokens :: int
  temperature :: int
  messages :: pyval

record response =
  status_code :: int
  reason :: string

text \<open>
  The trace: one event for each call of \<^verbatim>\<open>openai.ChatCompletion.create\<close> (with
  the request) and for each call of \<^verbatim>\<open>requests.post\<close> (with the URL and the data).
\<close>

datatype event =
    is_chat: ChatCompletion (sent_request: chat_request)
  | is_post: Post (post_url: string) (post_data: string)

type_synonym trace = "event list"

text \<open>
  The libraries. A chat completion and a POST may answer differently each time: their
  answer is a function of the calls made so far and of the request.
  \<open>ChatCompletion_create\<close> gives the text at \<^verbatim>\<open>['choices'][0]['message']['content']\<close>
  of the response, or the exception raised on the way to it.
  \<open>json_loads\<close> gives the parsed value, or the message of the JSONDecodeError.
  \<open>str_repr\<close> is \<^verbatim>\<open>repr\<close> on a str.
\<close>

record env =
  today :: date
  arxiv_results :: "arxiv_search \<Rightarrow> exn + paper list"
  ChatCompletion_create :: "trace \<Rightarrow> chat_request \<Rightarrow> exn + string"
  json_loads :: "string \<Rightarrow> string + pyval"
  json_dumps :: "pyval \<Rightarrow> string"
  requests_post :: "trace \<Rightarrow> string \<Rightarrow> string \<Rightarrow> exn + response"
  str_repr :: "string \<Rightarrow> string"

subsection \<open>Formatting values: str and repr\<close>

fun join :: "string \<Rightarrow> string list \<Rightarrow> string" where
  "join sep [] = []"
| "join sep [x] = x"
| "join sep (x # y # ys) = x @ sep @ join sep (y # ys)"

fun digits :: "nat \<Rightarrow> string" where
  "digits n = (if n < 10 then [char_of (48 + n)]
               else digits (n div 10) @ [char_of (48 + n mod 10)])"

definition str_int :: "int \<Rightarrow> string" where
  "str_int i = (if i < 0 then CHR ''-'' # digits (nat (- i)) else digits (nat i))"

fun py_repr :: "(string \<Rightarrow> string) \<Rightarrow> pyval \<Rightarrow> string" where
  "py_repr q PNone = ''None''"
| "py_repr q (PBool b) = (if b then ''True'' else ''False'')"
| "py_repr q (PInt i) = str_int i"
| "py_repr q (PFloat r) = r"
| "py_repr q (PStr s) = q s"
| "py_repr q (PList xs) = ''['' @ join '', '' (map (py_repr q) xs) @ '']''"
| "py_repr q (PDict kvs) =
     ''{'' @ join '', '' (map (\<lambda>kv. q (fst kv) @ '': '' @ py_repr q (snd kv)) kvs) @ ''}''"

text \<open>What an f-string puts in place of \<^verbatim>\<open>{v}\<close>: a str as it is, anything else by repr.\<close>

definition py_str :: "(string \<Rightarrow> string) \<Rightarrow> pyval \<Rightarrow> string" where
  "py_str q v = (case v of PStr s \<Rightarrow> s | _ \<Rightarrow> py_repr q v)"

text \<open>
  \<^verbatim>\<open>str(e)\<close> of an exception. The message of UnboundLocalError is the one of
  CPython 3.11 and later.
\<close>

fun str_exn :: "(string \<Rightarrow> string) \<Rightarrow> exn \<Rightarrow> string" where
  "str_exn q (JSONDecodeError msg doc) = msg"
| "str_exn q (KeyError k) = q k"
| "str_exn q (AttributeError msg) = msg"
| "str_exn q (UnboundLocalError v) =
     ''cannot access local variable '' @ sq v @ '' where it is not associated with a value''"
| "str_exn q (OverflowError msg) = msg"
| "str_exn q (LibraryError cls msg) = msg"

subsection \<open>obtain\_latest\_papers\<close>

text \<open>
  The for loop over the results, with the list it appends to. The search and the clock
  are the only inputs; \<open>sub_one_day\<close> is \<^verbatim>\<open>date.today() - timedelta(days=1)\<close>.
\<close>

fun same_day_loop :: "date \<Rightarrow> paper list \<Rightarrow> paper list \<Rightarrow> paper list" where
  "same_day_loop latest_date [] same_day_papers = same_day_papers"
| "same_day_loop latest_date (paper # results) same_day_papers =
     (let submission_date = date_of (published paper) in
      if submission_date = latest_date
      then same_day_loop latest_date results (same_day_papers @ [paper])
      else same_day_loop latest_date results same_day_papers)"

definition sub_one_day :: "date \<Rightarrow> exn + date" where
  "sub_one_day d =
     (if d - 1 < date_min then Inl (OverflowError ''date value out of range'')
      else Inr (d - 1))"

definition obtain_latest_papers :: "env \<Rightarrow> string \<Rightarrow> int \<Rightarrow> exn + paper list" where
  "obtain_latest_papers e category max_results' =
     (let search = \<lparr>query = ''cat:'' @ category, max_results = max_results',
                     sort_by = SubmittedDate\<rparr>
      in case arxiv_results e search of
           Inl x \<Rightarrow> Inl x
         | Inr results \<Rightarrow>
             (case sub_one_day (today e) of
                Inl x \<Rightarrow> Inl x
              | Inr latest_date \<Rightarrow> Inr (same_day_loop latest_date results [])))"

subsection \<open>get\_gpt\_reply and ask\_gpt\<close>

definition get_gpt_reply :: "env \<Rightarrow> string \<Rightarrow> trace \<Rightarrow> (exn + string) \<times> trace" where
  "get_gpt_reply e message tr =
     (let message' = PList [PDict [(''role'', PStr ''user''), (''content'', PStr message)]];
          request = \<lparr>model = ''gpt-3.5-turbo'', max_tokens = 1000, temperature = 0,
                      messages = message'\<rparr>
      in (ChatCompletion_create e tr request, tr @ [ChatCompletion request]))"

text \<open>
  The f-string of \<^verbatim>\<open>ask_gpt\<close>: a backslash at the end of a line joins it to the
  next one, whose indentation stays.
\<close>

definition prompt :: "string \<Rightarrow> string \<Rightarrow> string" where
  "prompt title' abstract =
     ''\<newline>'' @
     ''    Can you read the following title and abstract of an academic paper, and tell me the following questions? '' @
     ''    If a question is not applicable, return null.\<newline>'' @
     ''    \<newline>'' @
     ''    - Type: Is this work mainly focused on theoretical proposals (including quantum algorithms) or actual quantum'' @
     ''     hardware experiments? Return 'Theory' or 'Experiment'.\<newline>'' @
     ''    - Platform: If it is an experiment result, what type of hardware is the experiment implemented with? Return'' @
     ''     'Superconducting circuits', 'Spin qubits', 'Ion trap', 'Photonics', or 'Others:<The type of the hardware>'.\<newline>'' @
     ''    - Topic: If it is about a quantum algorithm, does it fall into the following categories? Return category '' @
     ''    'Error-correction', 'Fault-tolerated quantum algorithms', 'Near-term quantum algorithms', or'' @
     ''     'Others:<A category within two words>'.\<newline>'' @
     ''    - Summary: Write a one-sentence summary about this work.\<newline>'' @
     ''    \<newline>'' @
     ''    Title: '' @ title' @ ''\<newline>'' @
     ''    Abstract: '' @ abstract @ ''\<newline>'' @
     ''    \<newline>'' @
     ''    Return your answer in JSON format.\<newline>'' @
     ''    ''"

text \<open>
  \<^verbatim>\<open>json.loads\<close> is the only check of the reply: a text that does not parse raises
  JSONDecodeError, and whatever parses is returned, a dict or not.
\<close>

definition ask_gpt :: "env \<Rightarrow> string \<Rightarrow> string \<Rightarrow> trace \<Rightarrow> (exn + pyval) \<times> trace" where
  "ask_gpt e title' abstract tr =
     (case get_gpt_reply e (prompt title' abstract) tr of
        (Inl x, tr') \<Rightarrow> (Inl x, tr')
      | (Inr result, tr') \<Rightarrow>
          (case json_loads e result of
             Inl msg \<Rightarrow> (Inl (JSONDecodeError msg result), tr')
           | Inr v \<Rightarrow> (Inr v, tr')))"

subsection \<open>post\_message\_to\_slack\<close>

text \<open>
  \<open>web_hook\<close> is assigned in three branches and in no else branch: for any other
  channel the read of \<open>web_hook\<close>, the first argument of \<^verbatim>\<open>requests.post\<close>, raises
  UnboundLocalError before anything is sent.
\<close>

definition post_message_to_slack ::
  "env \<Rightarrow> pyval \<Rightarrow> string \<Rightarrow> trace \<Rightarrow> (exn + response) \<times> trace" where
  "post_message_to_slack e fields' channel tr =
     (let web_hook =
            (if channel = ''bottest'' then Some ''https://hooks.slack.com/services/<your-url>''
             else if channel = ''journal_hub'' then Some ''https://hooks.slack.com/services/<your-url>''
             else if channel = ''theory'' then Some ''https://hooks.slack.com/services/<your-url>''
             else None)
      in case web_hook of
           None \<Rightarrow> (Inl (UnboundLocalError ''web_hook''), tr)
         | Some url \<Rightarrow>
             (let data = json_dumps e fields'
              in (requests_post e tr url data, tr @ [Post url data])))"

subsection \<open>generate\_slack\_message\_block\<close>

text \<open>\<^verbatim>\<open>d[k]\<close> on a dict: the value, or KeyError.\<close>

definition getitem :: "(string \<times> pyval) list \<Rightarrow> string \<Rightarrow> exn + pyval" where
  "getitem d k = (case map_of d k of None \<Rightarrow> Inl (KeyError k) | Some v \<Rightarrow> Inr v)"

text \<open>
  The dict display is evaluated from top to bottom, so the keys are read in the order
  title, Type, Platform, Topic, url, Summary, and the first one missing raises.
\<close>

definition generate_slack_message_block ::
  "(string \<Rightarrow> string) \<Rightarrow> (string \<times> pyval) list \<Rightarrow> exn + pyval" where
  "generate_slack_message_block q paper =
     (case getitem paper ''title'' of Inl x \<Rightarrow> Inl x | Inr title' \<Rightarrow>
      case getitem paper ''Type'' of Inl x \<Rightarrow> Inl x | Inr type' \<Rightarrow>
      case getitem paper ''Platform'' of Inl x \<Rightarrow> Inl x | Inr platform \<Rightarrow>
      case getitem paper ''Topic'' of Inl x \<Rightarrow> Inl x | Inr topic \<Rightarrow>
      case getitem paper ''url'' of Inl x \<Rightarrow> Inl x | Inr url \<Rightarrow>
      case getitem paper ''Summary'' of Inl x \<Rightarrow> Inl x | Inr summary' \<Rightarrow>
      Inr (PDict [(''blocks'', PList [
        PDict [(''type'', PStr ''header''),
               (''text'', PDict [(''type'', PStr ''plain_text''),
                                 (''text'', title'),
                                 (''emoji'', PBool True)])],
        PDict [(''type'', PStr ''section''),
               (''fields'', PList [
                  PDict [(''type'', PStr ''mrkdwn''),
                         (''text'', PStr (''*Type:*\<newline>'' @ py_str q type'))],
                  PDict [(''type'', PStr ''mrkdwn''),
                         (''text'', PStr (''*Platform:*\<newline>'' @ py_str q platform))]])],
        PDict [(''type'', PStr ''section''),
               (''fields'', PList [
                  PDict [(''type'', PStr ''mrkdwn''),
                         (''text'', PStr (''*Topic:*\<newline>'' @ py_str q topic))],
                  PDict [(''type'', PStr ''mrkdwn''),
                         (''text'', PStr (''*URL:*\<newline>'' @ py_str q url))]])],
        PDict [(''type'', PStr ''section''),
               (''text'', PDict [(''type'', PStr ''mrkdwn''),
                                 (''text'', PStr (py_str q summary'))])]])]))"

subsection \<open>run and lambda\_handler\<close>

fun type_name :: "pyval \<Rightarrow> string" where
  "type_name PNone = ''NoneType''"
| "type_name (PBool b) = ''bool''"
| "type_name (PInt i) = ''int''"
| "type_name (PFloat r) = ''float''"
| "type_name (PStr s) = ''str''"
| "type_name (PList xs) = ''list''"
| "type_name (PDict kvs) = ''dict''"

text \<open>
  \<^verbatim>\<open>annotation.update({...})\<close>: only a dict has the method. On a dict the four keys
  are set in the order they are written; a key already there keeps its place.
\<close>

definition annotation_update :: "pyval \<Rightarrow> paper \<Rightarrow> exn + (string \<times> pyval) list" where
  "annotation_update annotation paper =
     (case annotation of
        PDict d \<Rightarrow>
          Inr (AList.update ''url'' (PStr (entry_id paper))
              (AList.update ''abstract'' (PStr (summary paper))
              (AList.update ''authors'' (PStr (join '', '' (map name (authors paper))))
              (AList.update ''title'' (PStr (title paper)) d))))
      | _ \<Rightarrow>
          Inl (AttributeError
                 (sq (type_name annotation) @ '' object has no attribute '' @ sq ''update'')))"

text \<open>
  The tests of the if/elif/else at the end of the loop body, in their order: what is
  read, what is compared, and which branch is taken. \<open>Destination c\<close> is a branch that
  formats the paper and calls \<^verbatim>\<open>post_message_to_slack\<close> with channel \<open>c\<close>;
  \<open>Suppress\<close> is the branch that is \<^verbatim>\<open>pass\<close>.
\<close>

datatype decision = Destination string | Suppress

definition route :: "(string \<times> pyval) list \<Rightarrow> exn + decision" where
  "route annotation =
     (case getitem annotation ''Platform'' of
        Inl x \<Rightarrow> Inl x
      | Inr platform \<Rightarrow>
          if platform = PStr ''Superconducting circuits'' then Inr (Destination ''journal_hub'')
          else (case getitem annotation ''Type'' of
                  Inl x \<Rightarrow> Inl x
                | Inr type' \<Rightarrow>
                    if type' = PStr ''Experiment'' then Inr Suppress
                    else Inr (Destination ''theory'')))"

text \<open>
  One turn of the for loop of \<^verbatim>\<open>run\<close>; it gives the annotation that is appended to
  \<open>papers_with_annotation\<close>. That list is local to \<^verbatim>\<open>run\<close>, is never read and is
  lost when \<^verbatim>\<open>run\<close> returns or raises, so it makes no difference that the source
  appends before the if and the loop below after it.
\<close>

definition run_body ::
  "env \<Rightarrow> paper \<Rightarrow> trace \<Rightarrow> (exn + (string \<times> pyval) list) \<times> trace" where
  "run_body e paper tr =
     (case ask_gpt e (title paper) (summary paper) tr of
        (Inl x, tr') \<Rightarrow> (Inl x, tr')
      | (Inr annotation, tr') \<Rightarrow>
          (case annotation_update annotation paper of
             Inl x \<Rightarrow> (Inl x, tr')
           | Inr annotation' \<Rightarrow>
               (case route annotation' of
                  Inl x \<Rightarrow> (Inl x, tr')
                | Inr Suppress \<Rightarrow> (Inr annotation', tr')
                | Inr (Destination channel) \<Rightarrow>
                    (case generate_slack_message_block (str_repr e) annotation' of
                       Inl x \<Rightarrow> (Inl x, tr')
                     | Inr blocks \<Rightarrow>
                         (case post_message_to_slack e blocks channel tr' of
                            (Inl x, tr'') \<Rightarrow> (Inl x, tr'')
                          | (Inr resp, tr'') \<Rightarrow> (Inr annotation', tr''))))))"

fun run_loop ::
  "env \<Rightarrow> paper list \<Rightarrow> (string \<times> pyval) list list \<Rightarrow> trace
     \<Rightarrow> (exn + (string \<times> pyval) list list) \<times> trace" where
  "run_loop e [] papers_with_annotation tr = (Inr papers_with_annotation, tr)"
| "run_loop e (paper # latest_papers) papers_with_annotation tr =
     (case run_body e paper tr of
        (Inl x, tr') \<Rightarrow> (Inl x, tr')
      | (Inr annotation, tr') \<Rightarrow>
          run_loop e latest_papers (papers_with_annotation @ [annotation]) tr')"

definition run :: "env \<Rightarrow> trace \<Rightarrow> (exn + unit) \<times> trace" where
  "run e tr =
     (case obtain_latest_papers e ''quant-ph'' 100 of
        Inl x \<Rightarrow> (Inl x, tr)
      | Inr latest_papers \<Rightarrow>
          (case run_loop e latest_papers [] tr of
             (Inl x, tr') \<Rightarrow> (Inl x, tr')
           | (Inr papers_with_annotation, tr') \<Rightarrow> (Inr (), tr')))"

text \<open>
  The handler catches every exception of \<^verbatim>\<open>run\<close> (all of \<open>exn\<close> are subclasses of
  Exception) and answers with a dict.
\<close>

definition lambda_handler :: "env \<Rightarrow> pyval \<Rightarrow> pyval \<Rightarrow> trace \<Rightarrow> pyval \<times> trace" where
  "lambda_handler e event' context' tr =
     (case run e tr of
        (Inl x, tr') \<Rightarrow>
          (PDict [(''status'', PBool False), (''error'', PStr (str_exn (str_repr e) x))], tr')
      | (Inr u, tr') \<Rightarrow> (PDict [(''status'', PStr ''True'')], tr'))"

subsection \<open>Sample libraries and papers for the examples\<close>

text \<open>
  The examples need libraries to run against. \<open>sample_dumps\<close> writes JSON the way
  \<^verbatim>\<open>json.dumps\<close> does for values whose strings are printable ASCII and newlines;
  \<open>sample_loads\<close> is \<^verbatim>\<open>json.loads\<close> on the texts the examples use, and
  answers for any other text as it does for \<^verbatim>\<open>not json\<close>; \<open>sq\<close> is
  \<^verbatim>\<open>repr\<close> of a str without quotes, backslashes or control characters.
  \<open>scripted_chat\<close> is a chat model that gives the replies of a list, one for each call.
\<close>

definition dq :: "string \<Rightarrow> string" where
  "dq s = CHR 0x22 # s @ [CHR 0x22]"

definition sample_escape :: "char \<Rightarrow> string" where
  "sample_escape c =
     (if c = CHR 0x0A then [CHR 0x5C, CHR ''n'']
      else if c = CHR 0x22 then [CHR 0x5C, CHR 0x22]
      else if c = CHR 0x5C then [CHR 0x5C, CHR 0x5C]
      else [c])"

fun sample_dumps :: "pyval \<Rightarrow> string" where
  "sample_dumps PNone = ''null''"
| "sample_dumps (PBool b) = (if b then ''true'' else ''false'')"
| "sample_dumps (PInt i) = str_int i"
| "sample_dumps (PFloat r) = r"
| "sample_dumps (PStr s) = dq (concat (map sample_escape s))"
| "sample_dumps (PList xs) = ''['' @ join '', '' (map sample_dumps xs) @ '']''"
| "sample_dumps (PDict kvs) =
     ''{'' @ join '', ''
        (map (\<lambda>kv. dq (concat (map sample_escape (fst kv))) @ '': '' @ sample_dumps (snd kv)) kvs)
      @ ''}''"

definition reply_theory :: string where
  "reply_theory =
     ''{'' @ dq ''Type'' @ '': '' @ dq ''Theory'' @ '', '' @
     dq ''Platform'' @ '': null, '' @
     dq ''Topic'' @ '': '' @ dq ''Error-correction'' @ '', '' @
     dq ''Summary'' @ '': '' @ dq ''A new code.'' @ ''}''"

definition reply_ion_trap :: string where
  "reply_ion_trap =
     ''{'' @ dq ''Type'' @ '': '' @ dq ''Experiment'' @ '', '' @
     dq ''Platform'' @ '': '' @ dq ''Ion trap'' @ '', '' @
     dq ''Topic'' @ '': null, '' @
     dq ''Summary'' @ '': '' @ dq ''A gate.'' @ ''}''"

definition reply_platform_only :: string where
  "reply_platform_only =
     ''{'' @ dq ''Platform'' @ '': '' @ dq ''Superconducting circuits'' @ ''}''"

definition reply_superconducting :: string where
  "reply_superconducting =
     ''{'' @ dq ''Type'' @ '': '' @ dq ''Experiment'' @ '', '' @
     dq ''Platform'' @ '': '' @ dq ''Superconducting circuits'' @ '', '' @
     dq ''Topic'' @ '': null, '' @
     dq ''Summary'' @ '': '' @ dq ''A qubit.'' @ ''}''"

definition reply_type_only :: string where
  "reply_type_only = ''{'' @ dq ''Type'' @ '': '' @ dq ''Experiment'' @ ''}''"

definition reply_no_topic :: string where
  "reply_no_topic =
     ''{'' @ dq ''Type'' @ '': '' @ dq ''Theory'' @ '', '' @ dq ''Platform'' @ '': null}''"

definition sample_loads :: "string \<Rightarrow> string + pyval" where
  "sample_loads s =
     (if s = ''{}'' then Inr (PDict [])
      else if s = ''null'' then Inr PNone
      else if s = reply_theory then
        Inr (PDict [(''Type'', PStr ''Theory''), (''Platform'', PNone),
                    (''Topic'', PStr ''Error-correction''), (''Summary'', PStr ''A new code.'')])
      else if s = reply_ion_trap then
        Inr (PDict [(''Type'', PStr ''Experiment''), (''Platform'', PStr ''Ion trap''),
                    (''Topic'', PNone), (''Summary'', PStr ''A gate.'')])
      else if s = reply_platform_only then
        Inr (PDict [(''Platform'', PStr ''Superconducting circuits'')])
      else if s = reply_superconducting then
        Inr (PDict [(''Type'', PStr ''Experiment''),
                    (''Platform'', PStr ''Superconducting circuits''),
                    (''Topic'', PNone), (''Summary'', PStr ''A qubit.'')])
      else if s = reply_type_only then Inr (PDict [(''Type'', PStr ''Experiment'')])
      else if s = reply_no_topic then
        Inr (PDict [(''Type'', PStr ''Theory''), (''Platform'', PNone)])
      else Inl ''Expecting value: line 1 column 1 (char 0)'')"

definition scripted_chat :: "string list \<Rightarrow> trace \<Rightarrow> chat_request \<Rightarrow> exn + string" where
  "scripted_chat replies tr req =
     (let n = length (filter is_chat tr)
      in if n < length replies then Inr (replies ! n)
         else Inl (LibraryError ''APIError'' ''no reply''))"

definition sample_env :: "date \<Rightarrow> paper list \<Rightarrow> string list \<Rightarrow> response \<Rightarrow> env" where
  "sample_env d items replies resp =
     \<lparr>today = d,
      arxiv_results = (\<lambda>search. Inr items),
      ChatCompletion_create = scripted_chat replies,
      json_loads = sample_loads,
      json_dumps = sample_dumps,
      requests_post = (\<lambda>tr url data. Inr resp),
      str_repr = sq\<rparr>"

definition ok_response :: response where
  "ok_response = \<lparr>status_code = 200, reason = ''OK''\<rparr>"

definition rejected_response :: response where
  "rejected_response = \<lparr>status_code = 404, reason = ''Not Found''\<rparr>"

text \<open>Day 738900 is 2024-01-15; a day has 86400000000 microseconds.\<close>

definition paper_1 :: paper where
  "paper_1 = \<lparr>entry_id = ''http://arxiv.org/abs/2401.00001v1'', title = ''Codes'',
              summary = ''We give a code.'',
              authors = [\<lparr>name = ''A. One''\<rparr>, \<lparr>name = ''B. Two''\<rparr>],
              published = \<lparr>day_ordinal = 738900, microsecond_of_day = 0\<rparr>\<rparr>"

definition paper_2 :: paper where
  "paper_2 = \<lparr>entry_id = ''http://arxiv.org/abs/2401.00002v1'', title = ''Gates'',
              summary = ''We build a gate.'',
              authors = [\<lparr>name = ''C. Three''\<rparr>],
              published = \<lparr>day_ordinal = 738900, microsecond_of_day = 43200000000\<rparr>\<rparr>"

definition paper_3 :: paper where
  "paper_3 = \<lparr>entry_id = ''http://arxiv.org/abs/2401.00003v1'', title = ''Bounds'',
              summary = ''We prove a bound.'',
              authors = [],
              published = \<lparr>day_ordinal = 738900, microsecond_of_day = 86399999999\<rparr>\<rparr>"

definition paper_before :: paper where
  "paper_before = \<lparr>entry_id = ''http://arxiv.org/abs/2401.00000v1'', title = ''Older'',
              summary = ''An older paper.'',
              authors = [\<lparr>name = ''D. Four''\<rparr>],
              published = \<lparr>day_ordinal = 738899, microsecond_of_day = 86399999999\<rparr>\<rparr>"

definition paper_after :: paper where
  "paper_after = \<lparr>entry_id = ''http://arxiv.org/abs/2401.00004v1'', title = ''Newer'',
              summary = ''A newer paper.'',
              authors = [\<lparr>name = ''E. Five''\<rparr>],
              published = \<lparr>day_ordinal = 738901, microsecond_of_day = 0\<rparr>\<rparr>"

section \<open>The feed selector\<close>

lemma same_day_loop_filter:
  "same_day_loop d rs acc = acc @ filter (\<lambda>p. date_of (published p) = d) rs"
  by (induction rs arbitrary: acc) (simp_all add: Let_def)

lemma papers_dates:
  "date_of (published paper_1) = 738900" "date_of (published paper_2) = 738900"
  "date_of (published paper_3) = 738900" "date_of (published paper_before) = 738899"
  "date_of (published paper_after) = 738901"
  by (simp_all add: date_of_def paper_1_def paper_2_def paper_3_def paper_before_def
      paper_after_def)

text \<open>The equations that run the module on the sample libraries and papers.\<close>

lemmas sample_defs = sample_env_def scripted_chat_def sample_loads_def
  reply_platform_only_def reply_theory_def reply_ion_trap_def reply_superconducting_def
  reply_type_only_def reply_no_topic_def dq_def

lemmas run_defs = lambda_handler_def run_def obtain_latest_papers_def sub_one_day_def
  date_min_def same_day_loop_filter run_body_def ask_gpt_def get_gpt_reply_def
  annotation_update_def route_def getitem_def generate_slack_message_block_def
  post_message_to_slack_def date_of_def Let_def

lemmas paper_defs = paper_1_def paper_2_def paper_3_def

text \<open>
  C4. Whatever sequence of items the feed gives, \<open>obtain_latest_papers\<close> returns
  exactly the items whose publication date, time of day dropped, is the day before
  today, in the order of the feed; an item of any other day is not in it, and when no
  item matches the result is the empty list and not an error. Yesterday has to exist:
  today is after \<^verbatim>\<open>date.min\<close>.
\<close>

theorem obtain_latest_papers_same_day:
  assumes "arxiv_results e \<lparr>query = ''cat:'' @ category, max_results = n,
                             sort_by = SubmittedDate\<rparr> = Inr results"
    and "date_min < today e"
  shows "obtain_latest_papers e category n =
           Inr (filter (\<lambda>p. date_of (published p) = today e - 1) results)
         \<and> (\<forall>out. obtain_latest_papers e category n = Inr out \<longrightarrow>
               set out = {p \<in> set results. date_of (published p) = today e - 1})
         \<and> ((\<forall>p \<in> set results. date_of (published p) \<noteq> today e - 1) \<longrightarrow>
               obtain_latest_papers e category n = Inr [])"
proof -
  have eq: "obtain_latest_papers e category n =
              Inr (filter (\<lambda>p. date_of (published p) = today e - 1) results)"
    using assms by (simp add: obtain_latest_papers_def sub_one_day_def same_day_loop_filter)
  have empty: "(\<forall>p \<in> set results. date_of (published p) \<noteq> today e - 1) \<longrightarrow>
                 filter (\<lambda>p. date_of (published p) = today e - 1) results = []"
    by (simp add: filter_empty_conv)
  show ?thesis using eq empty by auto
qed

text \<open>
  The feed of the example holds a paper of the day after, three of the target day (one
  at its first microsecond, one at its last) and one of the last microsecond of the day
  before; a second feed holds no paper of the target day.
\<close>

theorem obtain_latest_papers_same_day_witness:
  "obtain_latest_papers
     (sample_env 738901 [paper_after, paper_3, paper_2, paper_1, paper_before] [] ok_response)
     ''quant-ph'' 100 = Inr [paper_3, paper_2, paper_1]
   \<and> obtain_latest_papers
     (sample_env 738901 [paper_after, paper_before] [] ok_response) ''quant-ph'' 100 = Inr []"
  using obtain_latest_papers_same_day
    [of "sample_env 738901 [paper_after, paper_3, paper_2, paper_1, paper_before] [] ok_response"
        "''quant-ph''" 100 "[paper_after, paper_3, paper_2, paper_1, paper_before]"]
    obtain_latest_papers_same_day
    [of "sample_env 738901 [paper_after, paper_before] [] ok_response"
        "''quant-ph''" 100 "[paper_after, paper_before]"]
  by (simp add: sample_env_def date_min_def papers_dates)

section \<open>The routing rules\<close>

text \<open>
  The tests of the if chain as a table: what \<open>route\<close> answers when the entries it
  reads are there.
\<close>

lemma route_three_rules:
  "(map_of annotation ''Platform'' = Some (PStr ''Superconducting circuits'') \<longrightarrow>
      route annotation = Inr (Destination ''journal_hub''))
   \<and> (map_of annotation ''Platform'' = Some platform \<and>
        platform \<noteq> PStr ''Superconducting circuits'' \<and>
        map_of annotation ''Type'' = Some (PStr ''Experiment'') \<longrightarrow>
      route annotation = Inr Suppress)
   \<and> (map_of annotation ''Platform'' = Some platform \<and>
        platform \<noteq> PStr ''Superconducting circuits'' \<and>
        map_of annotation ''Type'' = Some type' \<and> type' \<noteq> PStr ''Experiment'' \<longrightarrow>
      route annotation = Inr (Destination ''theory''))"
  by (simp add: route_def getitem_def)

text \<open>
  C5, as stated, promises an outcome for an annotation whose Type is absent. With a
  Platform other than 'Superconducting circuits' the code goes on to read
  \<^verbatim>\<open>annotation['Type']\<close>, and that read raises.
\<close>

theorem route_missing_type_counterexample:
  "route [(''Platform'', PStr ''Ion trap''), (''Topic'', PNone), (''Summary'', PStr ''A gate.'')]
     = Inl (KeyError ''Type'')"
  by (simp add: route_def getitem_def)

text \<open>
  C5 (amended). The decision is a function of the annotation alone, and for every
  annotation in which Platform and Type are both present, null included, it is one of
  the three outcomes journal\_hub, Suppress and theory, and nothing is raised.
\<close>

theorem route_total_when_present:
  assumes "map_of annotation ''Platform'' = Some platform"
    and "map_of annotation ''Type'' = Some type'"
  shows "route annotation = Inr (Destination ''journal_hub'')
         \<or> route annotation = Inr Suppress
         \<or> route annotation = Inr (Destination ''theory'')"
  using assms by (simp add: route_def getitem_def)

theorem route_total_when_present_witness:
  "route [(''Type'', PNone), (''Platform'', PNone), (''Topic'', PNone), (''Summary'', PNone)]
     = Inr (Destination ''theory'')"
  using route_total_when_present
    [of "[(''Type'', PNone), (''Platform'', PNone), (''Topic'', PNone), (''Summary'', PNone)]"
        PNone PNone]
  by (simp add: route_def getitem_def)

section \<open>The delivery function\<close>

text \<open>
  C9. For every channel that is not 'bottest', 'journal\_hub' or 'theory',
  \<open>post_message_to_slack\<close> raises UnboundLocalError for \<open>web_hook\<close> and sends
  nothing: the trace is unchanged. For each of the three names it makes one POST, to
  the web hook, with the serialised message.
\<close>

theorem post_message_to_slack_channels:
  "(channel \<notin> {''bottest'', ''journal_hub'', ''theory''} \<longrightarrow>
      post_message_to_slack e fields' channel tr = (Inl (UnboundLocalError ''web_hook''), tr))
   \<and> (channel \<in> {''bottest'', ''journal_hub'', ''theory''} \<longrightarrow>
      post_message_to_slack e fields' channel tr =
        (requests_post e tr ''https://hooks.slack.com/services/<your-url>'' (json_dumps e fields'),
         tr @ [Post ''https://hooks.slack.com/services/<your-url>'' (json_dumps e fields')]))"
  by (auto simp add: post_message_to_slack_def Let_def)

theorem post_message_to_slack_channels_witness:
  "post_message_to_slack (sample_env 738901 [] [] ok_response) (PDict []) ''general'' []
     = (Inl (UnboundLocalError ''web_hook''), [])
   \<and> post_message_to_slack (sample_env 738901 [] [] ok_response) (PDict []) ''theory'' []
     = (Inr ok_response, [Post ''https://hooks.slack.com/services/<your-url>'' ''{}''])"
  using post_message_to_slack_channels
      [of "''general''" "sample_env 738901 [] [] ok_response" "PDict []" "[]"]
    post_message_to_slack_channels
      [of "''theory''" "sample_env 738901 [] [] ok_response" "PDict []" "[]"]
  by (simp add: sample_env_def)

section \<open>The requests to the chat model\<close>




section \<open>Routing and delivery in the loop body\<close>







section \<open>The message formatter\<close>

text \<open>
  C6, as stated, holds for every annotation. An annotation that has Platform
  'Superconducting circuits' and no Type passes the routing and reaches the formatter,
  which reads \<^verbatim>\<open>paper['Type']\<close> and raises; the handler then reports the failure.
  The dict of the example is what the loop builds for the first sample paper from the
  reply that holds a Platform only.
\<close>

theorem generate_slack_message_block_missing_key_counterexample:
  "generate_slack_message_block sq
     [(''Platform'', PStr ''Superconducting circuits''), (''title'', PStr ''Codes''),
      (''authors'', PStr ''A. One, B. Two''), (''abstract'', PStr ''We give a code.''),
      (''url'', PStr ''http://arxiv.org/abs/2401.00001v1'')]
   = Inl (KeyError ''Type'')
   \<and> fst (lambda_handler (sample_env 738901 [paper_1] [reply_platform_only] ok_response)
            PNone PNone [])
   = PDict [(''status'', PBool False), (''error'', PStr (sq ''Type''))]"
  by (simp add: run_defs sample_defs paper_defs)

text \<open>
  C6 (amended). For every dict that holds the keys title, Type, Platform, Topic, url
  and Summary, whatever their values, null included, the formatter raises nothing and
  returns the four blocks: the header with the title, the fields Type and Platform,
  the fields Topic and URL, and the summary text. A null value is rendered as the text
  None.
\<close>

theorem generate_slack_message_block_total:
  assumes "map_of paper ''title'' = Some title'"
    and "map_of paper ''Type'' = Some type'"
    and "map_of paper ''Platform'' = Some platform"
    and "map_of paper ''Topic'' = Some topic"
    and "map_of paper ''url'' = Some url"
    and "map_of paper ''Summary'' = Some summary'"
  shows "generate_slack_message_block q paper =
      Inr (PDict [(''blocks'', PList [
        PDict [(''type'', PStr ''header''),
               (''text'', PDict [(''type'', PStr ''plain_text''),
                                 (''text'', title'),
                                 (''emoji'', PBool True)])],
        PDict [(''type'', PStr ''section''),
               (''fields'', PList [
                  PDict [(''type'', PStr ''mrkdwn''),
                         (''text'', PStr (''*Type:*\<newline>'' @ py_str q type'))],
                  PDict [(''type'', PStr ''mrkdwn''),
                         (''text'', PStr (''*Platform:*\<newline>'' @ py_str q platform))]])],
        PDict [(''type'', PStr ''section''),
               (''fields'', PList [
                  PDict [(''type'', PStr ''mrkdwn''),
                         (''text'', PStr (''*Topic:*\<newline>'' @ py_str q topic))],
                  PDict [(''type'', PStr ''mrkdwn''),
                         (''text'', PStr (''*URL:*\<newline>'' @ py_str q url))]])],
        PDict [(''type'', PStr ''section''),
               (''text'', PDict [(''type'', PStr ''mrkdwn''),
                                 (''text'', PStr (py_str q summary'))])]])])
     \<and> py_str q PNone = ''None''"
  using assms by (simp add: generate_slack_message_block_def getitem_def py_str_def)

text \<open>The annotation of the example has all four fields null.\<close>

theorem generate_slack_message_block_total_witness:
  "generate_slack_message_block sq
     [(''Type'', PNone), (''Platform'', PNone), (''Topic'', PNone), (''Summary'', PNone),
      (''title'', PStr ''Codes''), (''authors'', PStr ''A. One, B. Two''),
      (''abstract'', PStr ''We give a code.''),
      (''url'', PStr ''http://arxiv.org/abs/2401.00001v1'')]
   = Inr (PDict [(''blocks'', PList [
        PDict [(''type'', PStr ''header''),
               (''text'', PDict [(''type'', PStr ''plain_text''),
                                 (''text'', PStr ''Codes''),
                                 (''emoji'', PBool True)])],
        PDict [(''type'', PStr ''section''),
               (''fields'', PList [
                  PDict [(''type'', PStr ''mrkdwn''), (''text'', PStr ''*Type:*\<newline>None'')],
                  PDict [(''type'', PStr ''mrkdwn''),
                         (''text'', PStr ''*Platform:*\<newline>None'')]])],
        PDict [(''type'', PStr ''section''),
               (''fields'', PList [
                  PDict [(''type'', PStr ''mrkdwn''), (''text'', PStr ''*Topic:*\<newline>None'')],
                  PDict [(''type'', PStr ''mrkdwn''),
                         (''text'', PStr ''*URL:*\<newline>http://arxiv.org/abs/2401.00001v1'')]])],
        PDict [(''type'', PStr ''section''),
               (''text'', PDict [(''type'', PStr ''mrkdwn''), (''text'', PStr ''None'')])]])])"
  using generate_slack_message_block_total
    [of "[(''Type'', PNone), (''Platform'', PNone), (''Topic'', PNone), (''Summary'', PNone),
          (''title'', PStr ''Codes''), (''authors'', PStr ''A. One, B. Two''),
          (''abstract'', PStr ''We give a code.''),
          (''url'', PStr ''http://arxiv.org/abs/2401.00001v1'')]"
        "PStr ''Codes''" PNone PNone PNone "PStr ''http://arxiv.org/abs/2401.00001v1''" PNone sq]
  by (simp add: py_str_def)

section \<open>The annotation extractor\<close>

text \<open>
  C3, as stated, has the extractor raise ClassificationError on a reply that is not
  JSON and on one that lacks a required key. The module defines no such exception:
  the reply \<^verbatim>\<open>{}\<close>, which has none of the four keys, is returned as it is, and the
  reply \<^verbatim>\<open>not json\<close> raises the JSONDecodeError of the json library.
\<close>

theorem ask_gpt_no_classification_error_counterexample:
  "fst (ask_gpt (sample_env 738901 [] [''{}''] ok_response) ''Codes'' ''We give a code.'' [])
     = Inr (PDict [])
   \<and> fst (ask_gpt (sample_env 738901 [] [''not json''] ok_response)
            ''Codes'' ''We give a code.'' [])
     = Inl (JSONDecodeError ''Expecting value: line 1 column 1 (char 0)'' ''not json'')
   \<and> exn_class (JSONDecodeError ''Expecting value: line 1 column 1 (char 0)'' ''not json'')
     \<noteq> ''ClassificationError''"
  by (simp add: ask_gpt_def get_gpt_reply_def sample_defs Let_def)

text \<open>
  C3 (amended). For every reply text of the model, the extractor raises the
  JSONDecodeError of the json library, which keeps the raw text, when the text does
  not parse as JSON; when it parses, the parsed value is returned as it is, with or
  without the keys Type, Platform, Topic and Summary.
\<close>

theorem ask_gpt_parse_only:
  assumes "fst (get_gpt_reply e (prompt title' abstract) tr) = Inr text"
  shows "(\<forall>msg. json_loads e text = Inl msg \<longrightarrow>
            fst (ask_gpt e title' abstract tr) = Inl (JSONDecodeError msg text))
         \<and> (\<forall>v. json_loads e text = Inr v \<longrightarrow> fst (ask_gpt e title' abstract tr) = Inr v)"
  using assms by (auto simp add: ask_gpt_def split: prod.splits sum.splits)

theorem ask_gpt_parse_only_witness:
  "fst (ask_gpt (sample_env 738901 [] [''null''] ok_response) ''Gates'' ''We build a gate.'' [])
     = Inr PNone
   \<and> fst (ask_gpt (sample_env 738901 [] [''<html>''] ok_response) ''Gates'' ''We build a gate.'' [])
     = Inl (JSONDecodeError ''Expecting value: line 1 column 1 (char 0)'' ''<html>'')"
  using ask_gpt_parse_only
      [of "sample_env 738901 [] [''null''] ok_response" "''Gates''" "''We build a gate.''" "[]"
          "''null''"]
    ask_gpt_parse_only
      [of "sample_env 738901 [] [''<html>''] ok_response" "''Gates''" "''We build a gate.''" "[]"
          "''<html>''"]
  by (simp add: get_gpt_reply_def sample_defs Let_def)

section \<open>The loop over the papers and the handler\<close>

lemma run_loop_append:
  "run_loop e (xs @ ys) acc tr =
     (case run_loop e xs acc tr of
        (Inl x, tr') \<Rightarrow> (Inl x, tr')
      | (Inr acc', tr') \<Rightarrow> run_loop e ys acc' tr')"
  by (induction xs arbitrary: acc tr) (auto split: prod.splits sum.splits)

text \<open>What the handler returns, in terms of \<open>run\<close>.\<close>

lemma lambda_handler_result:
  "fst (lambda_handler e event' context' tr) =
     (case fst (run e tr) of
        Inl x \<Rightarrow> PDict [(''status'', PBool False), (''error'', PStr (str_exn (str_repr e) x))]
      | Inr u \<Rightarrow> PDict [(''status'', PStr ''True'')])"
  by (simp add: lambda_handler_def split: prod.splits sum.splits)

text \<open>
  C2, as stated, has the failure of one paper caught and the others processed. The
  loop has no handler of its own. In a batch of three papers where the reply for the
  second is not JSON, the first paper is classified and posted, the second is sent to
  the model, and the run ends there: two requests to the model instead of three, one
  POST, and the handler reports status False with the message of the exception.
\<close>

theorem run_isolation_counterexample:
  "fst (lambda_handler
          (sample_env 738901 [paper_1, paper_2, paper_3]
             [reply_theory, ''not json'', reply_theory] ok_response) PNone PNone [])
     = PDict [(''status'', PBool False),
              (''error'', PStr ''Expecting value: line 1 column 1 (char 0)'')]
   \<and> length (filter is_chat (snd (lambda_handler
          (sample_env 738901 [paper_1, paper_2, paper_3]
             [reply_theory, ''not json'', reply_theory] ok_response) PNone PNone []))) = 2
   \<and> length (filter is_post (snd (lambda_handler
          (sample_env 738901 [paper_1, paper_2, paper_3]
             [reply_theory, ''not json'', reply_theory] ok_response) PNone PNone []))) = 1"
  by (simp add: run_defs sample_defs paper_defs)

text \<open>
  C2 (amended). For every batch of papers, a failure raised during one paper's
  extraction, routing, formatting or delivery is not caught in the loop: it ends the
  run at that paper, the papers after it are not processed (the calls made are those
  of the papers before it and of the failing paper up to the failure), and the handler
  reports status False with the text of the exception.
\<close>

theorem run_stops_at_first_failure:
  assumes "obtain_latest_papers e ''quant-ph'' 100 = Inr (before @ paper # after)"
    and "\<exists>annotations. fst (run_loop e before [] tr) = Inr annotations"
    and "fst (run_body e paper (snd (run_loop e before [] tr))) = Inl x"
  shows "lambda_handler e event' context' tr =
           (PDict [(''status'', PBool False), (''error'', PStr (str_exn (str_repr e) x))],
            snd (run_body e paper (snd (run_loop e before [] tr))))"
proof -
  obtain annotations tr1 where before: "run_loop e before [] tr = (Inr annotations, tr1)"
    using assms(2) by (cases "run_loop e before [] tr") auto
  obtain tr2 where body: "run_body e paper tr1 = (Inl x, tr2)"
    using assms(3) before by (cases "run_body e paper tr1") auto
  have "run_loop e (before @ paper # after) [] tr = (Inl x, tr2)"
    by (simp add: run_loop_append before body)
  then show ?thesis
    using assms(1) before body by (simp add: lambda_handler_def run_def)
qed

theorem run_stops_at_first_failure_witness:
  "lambda_handler
      (sample_env 738901 [paper_1, paper_2, paper_3] [reply_theory, ''<html>'', reply_theory]
         ok_response) PNone PNone []
   = (PDict [(''status'', PBool False),
             (''error'', PStr ''Expecting value: line 1 column 1 (char 0)'')],
      snd (run_body
             (sample_env 738901 [paper_1, paper_2, paper_3] [reply_theory, ''<html>'', reply_theory]
                ok_response) paper_2
             (snd (run_loop
                (sample_env 738901 [paper_1, paper_2, paper_3]
                   [reply_theory, ''<html>'', reply_theory] ok_response) [paper_1] [] []))))"
  using run_stops_at_first_failure
    [of "sample_env 738901 [paper_1, paper_2, paper_3] [reply_theory, ''<html>'', reply_theory]
           ok_response"
        "[paper_1]" paper_2 "[paper_3]" "[]"
        "JSONDecodeError ''Expecting value: line 1 column 1 (char 0)'' ''<html>''" PNone PNone]
  by (simp add: run_defs sample_defs paper_defs)

text \<open>
  C7. A run that ends without an exception, here one on an empty feed, makes the
  handler return the dict whose status is the string 'True', where the claim has the
  boolean true; the failure branch of the same function returns the boolean False.
\<close>

theorem lambda_handler_status_string:
  "fst (lambda_handler (sample_env 738901 [] [] ok_response) PNone PNone [])
     = PDict [(''status'', PStr ''True'')]
   \<and> fst (lambda_handler (sample_env 738901 [] [] ok_response) PNone PNone [])
     \<noteq> PDict [(''status'', PBool True)]"
  by (simp add: lambda_handler_def run_def obtain_latest_papers_def sub_one_day_def date_min_def
      sample_env_def)

section \<open>The response of the delivery\<close>

lemma run_body_response_discarded:
  "run_body (e\<lparr>requests_post := \<lambda>tr url data. Inr (r1 tr url data)\<rparr>) paper tr =
   run_body (e\<lparr>requests_post := \<lambda>tr url data. Inr (r2 tr url data)\<rparr>) paper tr"
  by (simp add: run_body_def ask_gpt_def get_gpt_reply_def post_message_to_slack_def Let_def
      split: prod.splits sum.splits decision.splits)

lemma run_loop_response_discarded:
  "run_loop (e\<lparr>requests_post := \<lambda>tr url data. Inr (r1 tr url data)\<rparr>) ps acc tr =
   run_loop (e\<lparr>requests_post := \<lambda>tr url data. Inr (r2 tr url data)\<rparr>) ps acc tr"
proof (induction ps arbitrary: acc tr)
  case Nil
  show ?case by simp
next
  case (Cons p ps)
  show ?case
    by (simp add: run_body_response_discarded [where ?r1.0 = r1 and ?r2.0 = r2] Cons.IH
        split: prod.splits sum.splits)
qed

lemma obtain_latest_papers_post_irrelevant:
  "obtain_latest_papers (e\<lparr>requests_post := f\<rparr>) category n = obtain_latest_papers e category n"
  by (simp add: obtain_latest_papers_def split: sum.splits)

lemma run_response_discarded:
  "run (e\<lparr>requests_post := \<lambda>tr url data. Inr (r1 tr url data)\<rparr>) tr =
   run (e\<lparr>requests_post := \<lambda>tr url data. Inr (r2 tr url data)\<rparr>) tr"
  by (simp add: run_def obtain_latest_papers_post_irrelevant
      run_loop_response_discarded [where ?r1.0 = r1 and ?r2.0 = r2] split: sum.splits)

text \<open>
  C10. The response that \<^verbatim>\<open>requests.post\<close> returns is dropped by the loop. Take any
  two ways \<open>r1\<close> and \<open>r2\<close> for the delivery to answer its POSTs, with any status
  code, a rejection included: what the handler returns and the calls it makes are the
  same for both. A rejected delivery raises nothing, is recorded nowhere, and the run
  reports what it reports when every delivery is accepted.
\<close>

theorem delivery_response_discarded:
  "lambda_handler (e\<lparr>requests_post := \<lambda>tr url data. Inr (r1 tr url data)\<rparr>)
      event' context' tr =
   lambda_handler (e\<lparr>requests_post := \<lambda>tr url data. Inr (r2 tr url data)\<rparr>)
      event' context' tr"
  by (simp add: lambda_handler_def run_response_discarded [where ?r1.0 = r1 and ?r2.0 = r2]
      split: prod.splits sum.splits)

text \<open>
  In the example every POST is answered with 404: the two papers that are routed to a
  channel are posted, and the handler reports success.
\<close>

theorem delivery_response_discarded_witness:
  "fst (lambda_handler
          (sample_env 738901 [paper_1, paper_2, paper_3]
             [reply_theory, reply_ion_trap, reply_theory] rejected_response) PNone PNone [])
     = PDict [(''status'', PStr ''True'')]
   \<and> length (filter is_post (snd (lambda_handler
          (sample_env 738901 [paper_1, paper_2, paper_3]
             [reply_theory, reply_ion_trap, reply_theory] rejected_response) PNone PNone []))) = 2"
  using delivery_response_discarded
    [where e = "sample_env 738901 [paper_1, paper_2, paper_3]
                  [reply_theory, reply_ion_trap, reply_theory] ok_response"
       and ?r1.0 = "\<lambda>tr url data. rejected_response"
       and ?r2.0 = "\<lambda>tr url data. ok_response"
       and event' = PNone and context' = PNone and tr = "[]"]
  by (simp add: run_defs sample_defs paper_defs)

end
